theory Spec2Isabelle
  imports Complex_Main "HOL-Library.AList"
begin

section \<open>Numbers, rounding and exceptions of the host language\<close>

text \<open>
  The program (\<^verbatim>\<open>src/open1.py\<close>) computes with Python floats. A float is modelled by the
  real number it stands for and the arithmetic \<^verbatim>\<open>+ - * /\<close> is exact: the rounding of each
  binary64 operation to 53 bits, infinities and NaN are not modelled. What is modelled of
  the float semantics is what the program's control flow depends on:
  \<^item> \<^verbatim>\<open>x ** k\<close> with an int exponent raises \<^verbatim>\<open>ZeroDivisionError\<close> for a zero base and a
    negative exponent, and \<^verbatim>\<open>OverflowError\<close> when the result leaves the binary64 range
    (an underflow is no error);
  \<^item> \<^verbatim>\<open>round(x, ndigits)\<close> rounds to the nearest multiple of \<^verbatim>\<open>10 ** -ndigits\<close>, a tie going
    to the even multiple;
  \<^item> \<^verbatim>\<open>int(x)\<close> truncates towards zero.
  An exception is a value: a function that can raise returns \<open>py_error + 'a\<close>.
\<close>

datatype py_error = OverflowError | ZeroDivisionError

text \<open>The least magnitude that binary64 rounds to infinity: half way between the largest
  finite float and \<open>2 ^ 1024\<close>.\<close>

definition DBL_OVERFLOW :: real where
  "DBL_OVERFLOW = 2 ^ 1024 - 2 ^ 970"

definition float_pow :: "real \<Rightarrow> int \<Rightarrow> py_error + real" where
  "float_pow x k =
     (if x = 0 \<and> k < 0 then Inl ZeroDivisionError
      else if DBL_OVERFLOW \<le> \<bar>x powi k\<bar> then Inl OverflowError
      else Inr (x powi k))"

definition round_half_even :: "real \<Rightarrow> int" where
  "round_half_even x =
     (if frac x < 1 / 2 then \<lfloor>x\<rfloor>
      else if 1 / 2 < frac x then \<lfloor>x\<rfloor> + 1
      else if even \<lfloor>x\<rfloor> then \<lfloor>x\<rfloor> else \<lfloor>x\<rfloor> + 1)"

definition py_round :: "real \<Rightarrow> int \<Rightarrow> real" where
  "py_round x ndigits =
     (if 0 \<le> ndigits
      then of_int (round_half_even (x * 10 ^ nat ndigits)) / 10 ^ nat ndigits
      else of_int (round_half_even (x / 10 ^ nat (- ndigits))) * 10 ^ nat (- ndigits))"

definition py_int :: "real \<Rightarrow> int" where
  "py_int x = (if 0 \<le> x then \<lfloor>x\<rfloor> else \<lceil>x\<rceil>)"

section \<open>Configuration and constants (lines 7--21)\<close>

definition CIVIL_SCORE_MIN :: int where
  "CIVIL_SCORE_MIN = 300"

definition CIVIL_SCORE_MAX :: int where
  "CIVIL_SCORE_MAX = 900"

definition ANNUAL_INTEREST_RATE_DEFAULT :: real where
  "ANNUAL_INTEREST_RATE_DEFAULT = 9 / 100"

definition MAX_EMI_TO_INCOME_RATIO :: real where
  "MAX_EMI_TO_INCOME_RATIO = 45 / 100"

definition LOAN_TENURES_YEARS :: "int list" where
  "LOAN_TENURES_YEARS = [5, 10, 15, 20, 25, 30]"

section \<open>Feature simulation (lines 25--76)\<close>

text \<open>A Python dict keeps its keys in insertion order and \<^verbatim>\<open>update\<close> overwrites a present
  key in place: an association list with \<^const>\<open>AList.update\<close>.\<close>

type_synonym feature_set = "(string \<times> real) list"

definition dict_update :: "('k \<times> 'v) list \<Rightarrow> ('k \<times> 'v) list \<Rightarrow> ('k \<times> 'v) list" where
  "dict_update d new = fold (\<lambda>(k, v). AList.update k v) new d"

definition default_features :: feature_set where
  "default_features =
     [(''income_stability_proxy'', 5 / 10),
      (''digital_transaction_volume'', 5 / 10),
      (''social_reputation_proxy'', 5 / 10),
      (''asset_ownership_proxy'', 5 / 10),
      (''skill_versatility_proxy'', 5 / 10)]"

definition simulate_alt_data_features :: "string \<Rightarrow> feature_set" where
  "simulate_alt_data_features job_type =
     (let features = default_features in
      if job_type = ''Gig Worker (e.g., Delivery, Driver)'' then
        dict_update features
          [(''income_stability_proxy'', 6 / 10),
           (''digital_transaction_volume'', 7 / 10),
           (''social_reputation_proxy'', 65 / 100),
           (''skill_versatility_proxy'', 7 / 10)]
      else if job_type = ''Farmer / Agricultural Worker'' then
        dict_update features
          [(''income_stability_proxy'', 4 / 10),
           (''asset_ownership_proxy'', 7 / 10),
           (''social_reputation_proxy'', 6 / 10),
           (''digital_transaction_volume'', 3 / 10)]
      else if job_type = ''Small Shop Owner / Local Business'' then
        dict_update features
          [(''income_stability_proxy'', 65 / 100),
           (''digital_transaction_volume'', 75 / 100),
           (''social_reputation_proxy'', 7 / 10),
           (''asset_ownership_proxy'', 6 / 10)]
      else if job_type = ''Salaried (Formal Employment)'' then
        dict_update features
          [(''income_stability_proxy'', 9 / 10),
           (''digital_transaction_volume'', 8 / 10),
           (''asset_ownership_proxy'', 6 / 10),
           (''skill_versatility_proxy'', 7 / 10)]
      else if job_type = ''Freelancer / Consultant (Irregular Income)'' then
        dict_update features
          [(''income_stability_proxy'', 55 / 100),
           (''digital_transaction_volume'', 85 / 100),
           (''social_reputation_proxy'', 75 / 100),
           (''skill_versatility_proxy'', 8 / 10)]
      else features)"

section \<open>Score generation (lines 78--94)\<close>

text \<open>Lines 83--86: the average of the feature values, \<open>0.5\<close> for the empty dict.\<close>

definition avg_feature_score :: "feature_set \<Rightarrow> real" where
  "avg_feature_score alt_data_features =
     (if alt_data_features = [] then 5 / 10
      else sum_list (map snd alt_data_features) / of_nat (length alt_data_features))"

definition generate_civil_score :: "feature_set \<Rightarrow> int" where
  "generate_civil_score alt_data_features =
     (let civil_score =
            py_int (of_int CIVIL_SCORE_MIN
                    + avg_feature_score alt_data_features
                      * of_int (CIVIL_SCORE_MAX - CIVIL_SCORE_MIN))
      in max CIVIL_SCORE_MIN (min civil_score CIVIL_SCORE_MAX))"

section \<open>Interest rate estimation (lines 96--112)\<close>

definition calculate_loan_interest_rate :: "int \<Rightarrow> real" where
  "calculate_loan_interest_rate civil_score =
     (let score_diff_from_mid =
            (of_int civil_score
             - (of_int CIVIL_SCORE_MIN + of_int (CIVIL_SCORE_MAX - CIVIL_SCORE_MIN) / 2)) / 100;
          rate_adjustment = - (score_diff_from_mid * (25 / 10000));
          estimated_annual_rate = ANNUAL_INTEREST_RATE_DEFAULT + rate_adjustment
      in max (7 / 100) (min estimated_annual_rate (15 / 100)))"

section \<open>Amortization (lines 114--155)\<close>

text \<open>Lines 129--132: the first \<^verbatim>\<open>try\<close> block, given the outcome of
  \<^verbatim>\<open>(1 + monthly_interest_rate) ** -number_of_payments\<close>. Only \<^verbatim>\<open>OverflowError\<close> is caught.\<close>

definition present_value_try :: "real \<Rightarrow> real \<Rightarrow> py_error + real \<Rightarrow> py_error + real" where
  "present_value_try max_permissible_emi monthly_interest_rate pw =
     (case pw of
        Inr p \<Rightarrow> Inr (max_permissible_emi * (1 - p) / monthly_interest_rate)
      | Inl OverflowError \<Rightarrow> Inr 0
      | Inl e \<Rightarrow> Inl e)"

text \<open>Lines 145--153: the second \<^verbatim>\<open>try\<close> block, given the outcome of
  \<^verbatim>\<open>(1 + monthly_interest_rate) ** number_of_payments\<close>.\<close>

definition actual_emi_try ::
  "real \<Rightarrow> real \<Rightarrow> real \<Rightarrow> int \<Rightarrow> py_error + real \<Rightarrow> py_error + real" where
  "actual_emi_try monthly_income max_loan_amount monthly_interest_rate number_of_payments pw =
     (case pw of
        Inr p \<Rightarrow>
          (let numerator = max_loan_amount * monthly_interest_rate * p;
               denominator = p - 1
           in if denominator = 0
              then Inr (if number_of_payments > 0
                        then max_loan_amount / of_int number_of_payments else 0)
              else Inr (numerator / denominator))
      | Inl OverflowError \<Rightarrow> Inr monthly_income
      | Inl e \<Rightarrow> Inl e)"

definition calculate_max_loan_and_emi :: "real \<Rightarrow> real \<Rightarrow> int \<Rightarrow> py_error + (real \<times> real)" where
  "calculate_max_loan_and_emi monthly_income annual_interest_rate loan_tenure_years =
     (let max_permissible_emi = monthly_income * MAX_EMI_TO_INCOME_RATIO;
          monthly_interest_rate = annual_interest_rate / 12;
          number_of_payments = loan_tenure_years * 12
      in case (if monthly_interest_rate = 0
               then Inr (max_permissible_emi * of_int number_of_payments)
               else present_value_try max_permissible_emi monthly_interest_rate
                      (float_pow (1 + monthly_interest_rate) (- number_of_payments))) of
           Inl e \<Rightarrow> Inl e
         | Inr max_loan_amount \<Rightarrow>
             if max_loan_amount \<le> 0 then Inr (0, 0)
             else
               (case (if monthly_interest_rate = 0
                      then Inr (if number_of_payments > 0
                                then max_loan_amount / of_int number_of_payments else 0)
                      else actual_emi_try monthly_income max_loan_amount monthly_interest_rate
                             number_of_payments
                             (float_pow (1 + monthly_interest_rate) number_of_payments)) of
                  Inl e \<Rightarrow> Inl e
                | Inr actual_emi \<Rightarrow>
                    Inr (py_round max_loan_amount 2, py_round actual_emi 2)))"

text \<open>The present value of an annuity, \<open>P = EMI * (1 - (1 + r)^-n) / r\<close> (the comment of
  line 128), as a function of the installment, the annual rate and the tenure.\<close>

definition annuity_present_value :: "real \<Rightarrow> real \<Rightarrow> int \<Rightarrow> real" where
  "annuity_present_value emi annual_interest_rate loan_tenure_years =
     emi * (1 - (1 + annual_interest_rate / 12) powi (- (loan_tenure_years * 12)))
       / (annual_interest_rate / 12)"

section \<open>Offer generation (lines 158--233)\<close>

record offer =
  bank_name :: string
  loan_product_name :: string
  offered_loan_amount :: real
  interest_rate_pa :: real
  tenure_years :: int
  estimated_emi :: real
  notes_txt :: string

text \<open>Line 166 and line 195: the two lenders' rates.\<close>

definition bank1_interest_rate :: "real \<Rightarrow> int \<Rightarrow> real" where
  "bank1_interest_rate base_annual_interest_rate civil_score =
     (let bank1_rate_adj = 5 / 1000
      in min (16 / 100)
           (max (75 / 1000)
              (base_annual_interest_rate + bank1_rate_adj
               - of_int (civil_score - 600) / 100 * (1 / 1000))))"

definition bank2_interest_rate :: "real \<Rightarrow> int \<Rightarrow> real" where
  "bank2_interest_rate base_annual_interest_rate civil_score =
     (let bank2_rate_adj = - (2 / 1000)
      in min (14 / 100)
           (max (7 / 100)
              (base_annual_interest_rate + bank2_rate_adj
               - of_int (civil_score - 650) / 100 * (2 / 1000))))"

text \<open>Lines 171--179 and, word for word with the second lender's variables, lines 199--207:
  the installment of an offered amount. The power is evaluated outside any \<^verbatim>\<open>try\<close>.\<close>

definition emi_recalc :: "real \<Rightarrow> real \<Rightarrow> int \<Rightarrow> py_error + real" where
  "emi_recalc loan_amount interest_rate loan_tenure_years =
     (let monthly_rate = interest_rate / 12;
          num_payments = loan_tenure_years * 12
      in if monthly_rate > 0 \<and> num_payments > 0 then
           (case float_pow (1 + monthly_rate) num_payments of
              Inl e \<Rightarrow> Inl e
            | Inr p \<Rightarrow>
                if p - 1 > 0
                then Inr ((loan_amount * monthly_rate * p) / (p - 1))
                else Inr (if num_payments > 0 then loan_amount / of_int num_payments else 0))
         else Inr (if num_payments > 0 then loan_amount / of_int num_payments else 0))"

definition bank1_offer :: "real \<Rightarrow> real \<Rightarrow> int \<Rightarrow> real \<Rightarrow> offer" where
  "bank1_offer bank1_loan_amount bank1_rate loan_tenure_years bank1_emi_recalc =
     \<lparr>bank_name = ''Inclusive Housing Finance Ltd.'',
      loan_product_name = ''Sahay Home Loan'',
      offered_loan_amount = bank1_loan_amount,
      interest_rate_pa = py_round (bank1_rate * 100) 2,
      tenure_years = loan_tenure_years,
      estimated_emi = py_round bank1_emi_recalc 2,
      notes_txt = ''Focuses on financial inclusion, flexible documentation (simulated).''\<rparr>"

definition bank2_offer :: "real \<Rightarrow> real \<Rightarrow> int \<Rightarrow> real \<Rightarrow> offer" where
  "bank2_offer bank2_loan_amount bank2_rate loan_tenure_years bank2_emi_recalc =
     \<lparr>bank_name = ''Progressive National Bank'',
      loan_product_name = ''MyFirstHome Loan'',
      offered_loan_amount = bank2_loan_amount,
      interest_rate_pa = py_round (bank2_rate * 100) 2,
      tenure_years = loan_tenure_years,
      estimated_emi = py_round bank2_emi_recalc 2,
      notes_txt = ''Competitive rates, standard processing (simulated).''\<rparr>"

definition generic_offer :: "real \<Rightarrow> real \<Rightarrow> int \<Rightarrow> real \<Rightarrow> offer" where
  "generic_offer max_loan_calculated calculated_emi loan_tenure_years base_annual_interest_rate =
     \<lparr>bank_name = ''Generic Lender Co.'',
      loan_product_name = ''Basic Home Loan'',
      offered_loan_amount = py_round (max_loan_calculated * (9 / 10)) (- 3),
      interest_rate_pa = py_round (base_annual_interest_rate * 100) 2 + 1,
      tenure_years = loan_tenure_years,
      estimated_emi = calculated_emi * (105 / 100),
      notes_txt = ''A basic loan option (simulated).''\<rparr>"

text \<open>The two calls of \<^verbatim>\<open>np.random.uniform\<close> (lines 167 and 196) are the parameters
  \<open>u1\<close>, drawn from \<open>[0.90, 0.98]\<close>, and \<open>u2\<close>, drawn from \<open>[0.95, 1.0]\<close>.\<close>

definition get_mock_bank_loan_options ::
  "real \<Rightarrow> real \<Rightarrow> real \<Rightarrow> real \<Rightarrow> int \<Rightarrow> int \<Rightarrow> real \<Rightarrow> py_error + offer list" where
  "get_mock_bank_loan_options u1 u2 max_loan_calculated calculated_emi civil_score
       loan_tenure_years base_annual_interest_rate =
     (let bank1_rate = bank1_interest_rate base_annual_interest_rate civil_score;
          bank1_loan_amount = py_round (max_loan_calculated * u1) (- 3)
      in case calculate_max_loan_and_emi 0 bank1_rate loan_tenure_years of
           Inl e \<Rightarrow> Inl e
         | Inr unused \<Rightarrow>
        (case emi_recalc bank1_loan_amount bank1_rate loan_tenure_years of
           Inl e \<Rightarrow> Inl e
         | Inr bank1_emi_recalc \<Rightarrow>
        (let options1 =
               (if bank1_loan_amount > 10000
                then [bank1_offer bank1_loan_amount bank1_rate loan_tenure_years bank1_emi_recalc]
                else []);
             bank2_rate = bank2_interest_rate base_annual_interest_rate civil_score;
             bank2_loan_amount = py_round (max_loan_calculated * u2) (- 3)
         in case emi_recalc bank2_loan_amount bank2_rate loan_tenure_years of
              Inl e \<Rightarrow> Inl e
            | Inr bank2_emi_recalc \<Rightarrow>
           (let options2 =
                  options1 @
                  (if bank2_loan_amount > 10000
                   then [bank2_offer bank2_loan_amount bank2_rate loan_tenure_years
                           bank2_emi_recalc]
                   else [])
            in Inr (if options2 = [] \<and> max_loan_calculated > 0
                    then options2 @ [generic_offer max_loan_calculated calculated_emi
                                       loan_tenure_years base_annual_interest_rate]
                    else options2)))))"

section \<open>Properties of the rounding functions\<close>

lemma round_half_even_of_int: "round_half_even (of_int k) = k"
  by (simp add: round_half_even_def)

lemma round_half_even_floor_le: "\<lfloor>x\<rfloor> \<le> round_half_even x"
  by (simp add: round_half_even_def)

lemma round_half_even_le_floor1: "round_half_even x \<le> \<lfloor>x\<rfloor> + 1"
  by (simp add: round_half_even_def)

lemma round_half_even_upper: "of_int (round_half_even x) \<le> x + 1 / 2"
proof -
  have f: "frac x = x - of_int \<lfloor>x\<rfloor>" by (simp add: frac_def)
  have l: "of_int \<lfloor>x\<rfloor> \<le> x" by simp
  consider "frac x < 1 / 2" | "frac x = 1 / 2" | "1 / 2 < frac x" by linarith
  then show ?thesis
  proof cases
    case 1
    then have "round_half_even x = \<lfloor>x\<rfloor>" by (simp add: round_half_even_def)
    then show ?thesis using l by linarith
  next
    case 2
    then have "round_half_even x \<le> \<lfloor>x\<rfloor> + 1" by (simp add: round_half_even_def)
    then have "real_of_int (round_half_even x) \<le> of_int \<lfloor>x\<rfloor> + 1" by linarith
    then show ?thesis using f 2 by linarith
  next
    case 3
    then have "round_half_even x = \<lfloor>x\<rfloor> + 1" by (simp add: round_half_even_def)
    then have "real_of_int (round_half_even x) = of_int \<lfloor>x\<rfloor> + 1" by simp
    then show ?thesis using f 3 by linarith
  qed
qed

lemma round_half_even_lower: "x - 1 / 2 \<le> of_int (round_half_even x)"
proof -
  have f: "frac x = x - of_int \<lfloor>x\<rfloor>" by (simp add: frac_def)
  have u: "x < of_int \<lfloor>x\<rfloor> + 1" by linarith
  consider "frac x < 1 / 2" | "frac x = 1 / 2" | "1 / 2 < frac x" by linarith
  then show ?thesis
  proof cases
    case 1
    then have "round_half_even x = \<lfloor>x\<rfloor>" by (simp add: round_half_even_def)
    then show ?thesis using f 1 by linarith
  next
    case 2
    have "\<lfloor>x\<rfloor> \<le> round_half_even x" by (simp add: round_half_even_def)
    then have "real_of_int \<lfloor>x\<rfloor> \<le> of_int (round_half_even x)" by linarith
    then show ?thesis using f 2 by linarith
  next
    case 3
    then have "round_half_even x = \<lfloor>x\<rfloor> + 1" by (simp add: round_half_even_def)
    then have "real_of_int (round_half_even x) = of_int \<lfloor>x\<rfloor> + 1" by simp
    then show ?thesis using u by linarith
  qed
qed

lemma round_half_even_mono:
  assumes "x \<le> y"
  shows "round_half_even x \<le> round_half_even y"
proof (cases "\<lfloor>x\<rfloor> = \<lfloor>y\<rfloor>")
  case True
  have "frac x \<le> frac y" using assms True by (simp add: frac_def)
  then show ?thesis using True unfolding round_half_even_def by auto
next
  case False
  have "\<lfloor>x\<rfloor> \<le> \<lfloor>y\<rfloor>" using assms by (rule floor_mono)
  then have "\<lfloor>x\<rfloor> + 1 \<le> \<lfloor>y\<rfloor>" using False by simp
  then show ?thesis
    using round_half_even_le_floor1 [of x] round_half_even_floor_le [of y] by linarith
qed

lemma py_round_mono: "x \<le> y \<Longrightarrow> py_round x nd \<le> py_round y nd"
  unfolding py_round_def
  by (auto intro!: divide_right_mono mult_right_mono round_half_even_mono)

lemma py_round_error_2: "\<bar>py_round x 2 - x\<bar> \<le> 5 / 1000"
proof -
  have u: "of_int (round_half_even (x * 100)) \<le> x * 100 + 1 / 2"
    by (rule round_half_even_upper)
  have l: "x * 100 - 1 / 2 \<le> of_int (round_half_even (x * 100))"
    by (rule round_half_even_lower)
  have e: "py_round x 2 = of_int (round_half_even (x * 100)) / 100"
    by (simp add: py_round_def)
  show ?thesis unfolding e abs_le_iff using u l by linarith
qed

lemma py_round_2_fix: "py_round (of_int k / 100) 2 = of_int k / 100"
  by (simp add: py_round_def round_half_even_of_int)

lemma py_round_m3_fix: "py_round (of_int k * 1000) (- 3) = of_int k * 1000"
  by (simp add: py_round_def round_half_even_of_int)

lemma round_half_even_unique:
  assumes "of_int k - 1 / 2 < x" "x < of_int k + 1 / 2"
  shows "round_half_even x = k"
proof -
  have u: "of_int (round_half_even x) \<le> x + 1 / 2" by (rule round_half_even_upper)
  have l: "x - 1 / 2 \<le> of_int (round_half_even x)" by (rule round_half_even_lower)
  have "real_of_int (round_half_even x) < of_int k + 1" using u assms by linarith
  then have "round_half_even x < k + 1" by linarith
  moreover have "real_of_int k - 1 < of_int (round_half_even x)" using l assms by linarith
  then have "k - 1 < round_half_even x" by linarith
  ultimately show ?thesis by linarith
qed

lemma py_round_2_unique:
  assumes "of_int k - 1 / 2 < x * 100" "x * 100 < of_int k + 1 / 2"
  shows "py_round x 2 = of_int k / 100"
  using round_half_even_unique [OF assms] by (simp add: py_round_def)

section \<open>Properties of the float power\<close>

lemma DBL_OVERFLOW_gt: "2 ^ 1023 < DBL_OVERFLOW"
  by (simp add: DBL_OVERFLOW_def)

lemma DBL_OVERFLOW_gt_1: "1 < DBL_OVERFLOW"
  by (simp add: DBL_OVERFLOW_def)

lemma float_pow_nonzero_base:
  "x \<noteq> 0 \<Longrightarrow> float_pow x k = Inl OverflowError \<or> float_pow x k = Inr (x powi k)"
  by (simp add: float_pow_def)

lemma float_pow_one: "float_pow 1 k = Inr 1"
  using DBL_OVERFLOW_gt_1 by (simp add: float_pow_def)

lemma float_pow_inverse_range:
  assumes "1 \<le> x" "0 \<le> n"
  shows "float_pow x (- n) = Inr (x powi (- n))"
proof -
  have "1 \<le> x powi n" using assms by simp
  then have "x powi (- n) \<le> 1" "0 \<le> x powi (- n)"
    by (simp_all add: power_int_minus field_simps)
  then have "\<bar>x powi (- n)\<bar> < DBL_OVERFLOW" using DBL_OVERFLOW_gt_1 by linarith
  moreover have "x \<noteq> 0" using assms by linarith
  ultimately show ?thesis by (simp add: float_pow_def)
qed

lemma float_pow_range:
  assumes "1 \<le> x" "x \<le> 2" "0 \<le> n" "n \<le> 1023"
  shows "float_pow x n = Inr (x powi n)"
proof -
  have "x powi n \<le> 2 powi n" using assms by (intro power_int_mono) simp_all
  also have "\<dots> \<le> 2 powi 1023" using assms by (intro power_int_increasing) simp_all
  also have "\<dots> = 2 ^ 1023" by simp
  finally have "x powi n < DBL_OVERFLOW" using DBL_OVERFLOW_gt by linarith
  moreover have "0 \<le> x powi n" using assms by simp
  moreover have "x \<noteq> 0" using assms by linarith
  ultimately show ?thesis by (simp add: float_pow_def)
qed

lemma DBL_OVERFLOW_le: "DBL_OVERFLOW \<le> 2 ^ 1024"
  by (simp add: DBL_OVERFLOW_def)

lemma float_pow_overflow_large:
  assumes "1024 \<le> x" "103 \<le> n"
  shows "float_pow x n = Inl OverflowError"
proof -
  have n: "0 \<le> n" using assms by simp
  have "(2::real) ^ 1024 \<le> 2 ^ (10 * nat n)"
    using assms by (intro power_increasing) simp_all
  also have "\<dots> = (1024::real) ^ nat n" by (simp add: power_mult)
  also have "\<dots> \<le> x ^ nat n" using assms by (intro power_mono) simp_all
  also have "\<dots> = x powi n" using n by (simp add: power_int_def)
  finally have "DBL_OVERFLOW \<le> \<bar>x powi n\<bar>" using DBL_OVERFLOW_le by linarith
  moreover have "x \<noteq> 0" using assms by linarith
  ultimately show ?thesis by (simp add: float_pow_def)
qed

lemma float_pow_overflow_small:
  assumes "0 < x" "x \<le> 1 / 1024" "103 \<le> n"
  shows "float_pow x (- n) = Inl OverflowError"
proof -
  have "1024 \<le> 1 / x" using assms by (simp add: field_simps)
  then have "float_pow (1 / x) n = Inl OverflowError"
    using assms by (intro float_pow_overflow_large)
  moreover have "(1 / x) powi n = x powi (- n)"
    by (simp add: power_int_minus power_int_one_over inverse_eq_divide)
  moreover have "x \<noteq> 0" "1 / x \<noteq> 0" using assms by simp_all
  ultimately show ?thesis by (simp add: float_pow_def split: if_splits)
qed

lemma float_pow_underflow_large:
  assumes "1024 \<le> x" "0 < n"
  shows "float_pow x (- n) = Inr (x powi (- n))
         \<and> 0 < x powi (- n) \<and> x powi (- n) \<le> 1 / 1024"
proof -
  have x1: "1 \<le> x" using assms by linarith
  have f: "float_pow x (- n) = Inr (x powi (- n))"
    using x1 assms by (intro float_pow_inverse_range) simp_all
  have "x powi 1 \<le> x powi n" using x1 assms by (intro power_int_increasing) simp_all
  then have "1024 \<le> x powi n" using assms by simp
  then have "x powi (- n) \<le> 1 / 1024"
    by (simp add: power_int_minus field_simps)
  moreover have "0 < x powi (- n)" using x1 by simp
  ultimately show ?thesis using f by simp
qed

section \<open>Properties of the amortization engine\<close>

lemma calculate_max_loan_and_emi_nonzero_rate:
  assumes "rate \<noteq> 0"
  shows "calculate_max_loan_and_emi income rate years =
    (case present_value_try (income * MAX_EMI_TO_INCOME_RATIO) (rate / 12)
            (float_pow (1 + rate / 12) (- (years * 12))) of
       Inl e \<Rightarrow> Inl e
     | Inr L \<Rightarrow>
         if L \<le> 0 then Inr (0, 0)
         else (case actual_emi_try income L (rate / 12) (years * 12)
                      (float_pow (1 + rate / 12) (years * 12)) of
                 Inl e \<Rightarrow> Inl e
               | Inr E \<Rightarrow> Inr (py_round L 2, py_round E 2)))"
  using assms
  by (simp add: calculate_max_loan_and_emi_def Let_def split: sum.split)

lemma calculate_max_loan_and_emi_zero_rate:
  "\<exists>L E. calculate_max_loan_and_emi income 0 years = Inr (L, E)"
  by (simp add: calculate_max_loan_and_emi_def Let_def)

lemma present_value_try_simps:
  "present_value_try e r (Inr p) = Inr (e * (1 - p) / r)"
  "present_value_try e r (Inl OverflowError) = Inr 0"
  "present_value_try e r (Inl ZeroDivisionError) = Inl ZeroDivisionError"
  by (simp_all add: present_value_try_def)

lemma actual_emi_try_simps:
  "actual_emi_try income L r n (Inr p) =
     (if p - 1 = 0 then Inr (if n > 0 then L / of_int n else 0)
      else Inr (L * r * p / (p - 1)))"
  "actual_emi_try income L r n (Inl OverflowError) = Inr income"
  "actual_emi_try income L r n (Inl ZeroDivisionError) = Inl ZeroDivisionError"
  by (simp_all add: actual_emi_try_def Let_def)

lemma pv_overflow_gives_zero:
  assumes "float_pow (1 + rate / 12) (- (years * 12)) = Inl OverflowError"
  shows "calculate_max_loan_and_emi income rate years = Inr (0, 0)"
proof -
  have "rate \<noteq> 0" using assms float_pow_one [of "- (years * 12)"] by auto
  then show ?thesis
    using assms by (simp add: calculate_max_loan_and_emi_nonzero_rate present_value_try_simps)
qed

lemma never_raises:
  assumes "rate \<noteq> - 12"
  shows "\<exists>L E. calculate_max_loan_and_emi income rate years = Inr (L, E)"
proof (cases "rate = 0")
  case True
  then show ?thesis by (simp add: calculate_max_loan_and_emi_zero_rate)
next
  case False
  have nz: "1 + rate / 12 \<noteq> 0" using assms by auto
  obtain L where L: "present_value_try (income * MAX_EMI_TO_INCOME_RATIO) (rate / 12)
            (float_pow (1 + rate / 12) (- (years * 12))) = Inr L"
    using float_pow_nonzero_base [OF nz, of "- (years * 12)"]
    by (auto simp: present_value_try_simps)
  have "\<exists>E. actual_emi_try income L (rate / 12) (years * 12)
                      (float_pow (1 + rate / 12) (years * 12)) = Inr E"
    using float_pow_nonzero_base [OF nz, of "years * 12"]
    by (auto simp: actual_emi_try_simps)
  then obtain E where E: "actual_emi_try income L (rate / 12) (years * 12)
                      (float_pow (1 + rate / 12) (years * 12)) = Inr E" ..
  show ?thesis
    by (simp add: calculate_max_loan_and_emi_nonzero_rate [OF False] L E)
qed

lemma emi_overflow_gives_income:
  assumes "rate \<noteq> 0"
    and "float_pow (1 + rate / 12) (- (years * 12)) = Inr q"
    and "0 < income * MAX_EMI_TO_INCOME_RATIO * (1 - q) / (rate / 12)"
    and "float_pow (1 + rate / 12) (years * 12) = Inl OverflowError"
  shows "calculate_max_loan_and_emi income rate years =
           Inr (py_round (income * MAX_EMI_TO_INCOME_RATIO * (1 - q) / (rate / 12)) 2, py_round income 2)"
  using assms
  by (simp add: calculate_max_loan_and_emi_nonzero_rate present_value_try_simps
        actual_emi_try_simps)

lemma annuity_factor_nonneg:
  fixes r :: real
  assumes "0 < 1 + r" "r \<noteq> 0" "0 \<le> n"
  shows "0 \<le> (1 - (1 + r) powi (- n)) / r"
proof (cases "0 < r")
  case True
  have "1 \<le> (1 + r) powi n"
    by (rule one_le_power_int) (use True assms in simp_all)
  then have "(1 + r) powi (- n) \<le> 1"
    by (simp add: power_int_minus field_simps)
  then show ?thesis using True by simp
next
  case False
  then have neg: "r < 0" using assms by simp
  have "(1 + r) powi n \<le> 1"
    using assms neg by (intro power_int_le_one) simp_all
  moreover have "0 < (1 + r) powi n" using assms by simp
  ultimately have "1 \<le> (1 + r) powi (- n)"
    by (simp add: power_int_minus field_simps)
  then have "1 - (1 + r) powi (- n) \<le> 0" by simp
  then show ?thesis using neg by (simp add: divide_nonpos_neg)
qed

lemma nonpositive_income_gives_zero:
  assumes "income \<le> 0" "- 12 < rate" "0 \<le> years"
  shows "calculate_max_loan_and_emi income rate years = Inr (0, 0)"
proof (cases "rate = 0")
  case True
  have z: "rate / 12 = 0" using True by simp
  have "income * MAX_EMI_TO_INCOME_RATIO \<le> 0"
    using assms by (simp add: MAX_EMI_TO_INCOME_RATIO_def)
  moreover have "0 \<le> real_of_int (years * 12)" using assms by simp
  ultimately have le: "income * MAX_EMI_TO_INCOME_RATIO * real_of_int (years * 12) \<le> 0"
    by (rule mult_nonpos_nonneg)
  show ?thesis
    unfolding calculate_max_loan_and_emi_def Let_def
    by (simp only: z le if_True sum.case simp_thms)
next
  case False
  have pos: "0 < 1 + rate / 12" using assms by simp
  then have nz: "1 + rate / 12 \<noteq> 0" by simp
  have r: "rate / 12 \<noteq> 0" using False by simp
  have n: "0 \<le> years * 12" using assms by simp
  show ?thesis
    using float_pow_nonzero_base [OF nz, of "- (years * 12)"]
  proof
    assume "float_pow (1 + rate / 12) (- (years * 12)) = Inl OverflowError"
    then show ?thesis by (rule pv_overflow_gives_zero)
  next
    assume p: "float_pow (1 + rate / 12) (- (years * 12))
                 = Inr ((1 + rate / 12) powi (- (years * 12)))"
    have "income * MAX_EMI_TO_INCOME_RATIO \<le> 0"
      using assms by (simp add: MAX_EMI_TO_INCOME_RATIO_def)
    moreover have "0 \<le> (1 - (1 + rate / 12) powi (- (years * 12))) / (rate / 12)"
      using pos r n by (rule annuity_factor_nonneg)
    ultimately have "income * MAX_EMI_TO_INCOME_RATIO
        * ((1 - (1 + rate / 12) powi (- (years * 12))) / (rate / 12)) \<le> 0"
      by (rule mult_nonpos_nonneg)
    then have "income * MAX_EMI_TO_INCOME_RATIO
        * (1 - (1 + rate / 12) powi (- (years * 12))) / (rate / 12) \<le> 0"
      by (simp only: times_divide_eq_right)
    then show ?thesis
      unfolding calculate_max_loan_and_emi_nonzero_rate [OF False] p present_value_try_simps
      by simp
  qed
qed

lemma regular_quote:
  assumes "0 < income" "0 < rate" "rate \<le> 12" "0 < years" "years * 12 \<le> 1023"
  shows "calculate_max_loan_and_emi income rate years =
           Inr (py_round (annuity_present_value (income * MAX_EMI_TO_INCOME_RATIO) rate years) 2,
                py_round (income * MAX_EMI_TO_INCOME_RATIO) 2)"
proof -
  define r where "r = rate / 12"
  define n where "n = years * 12"
  define e where "e = income * MAX_EMI_TO_INCOME_RATIO"
  define p where "p = (1 + r) powi n"
  have r: "0 < r" "r \<le> 1" using assms by (simp_all add: r_def)
  have n: "0 < n" "n \<le> 1023" using assms by (simp_all add: n_def)
  have e: "0 < e" using assms by (simp add: e_def MAX_EMI_TO_INCOME_RATIO_def)
  have p1: "1 < p" unfolding p_def using r n by (intro one_less_power_int) simp_all
  have q: "(1 + r) powi (- n) = 1 / p" by (simp add: p_def power_int_minus field_simps)
  have fq: "float_pow (1 + r) (- n) = Inr (1 / p)"
    using float_pow_inverse_range [of "1 + r" n] r n q by simp
  have fp: "float_pow (1 + r) n = Inr p"
    using float_pow_range [of "1 + r" n] r n by (simp add: p_def)
  define L where "L = e * (1 - 1 / p) / r"
  have Lpos: "0 < L" unfolding L_def using e r p1 by (simp add: field_simps)
  have emi: "L * r * p / (p - 1) = e"
    unfolding L_def using r p1 by (simp add: field_simps)
  have pv: "annuity_present_value e rate years = L"
    by (simp add: annuity_present_value_def L_def q [unfolded r_def n_def] r_def n_def)
  have "rate \<noteq> 0" using assms by simp
  then have "calculate_max_loan_and_emi income rate years =
      (case present_value_try e r (float_pow (1 + r) (- n)) of
         Inl x \<Rightarrow> Inl x
       | Inr L \<Rightarrow>
           if L \<le> 0 then Inr (0, 0)
           else (case actual_emi_try income L r n (float_pow (1 + r) n) of
                   Inl x \<Rightarrow> Inl x
                 | Inr E \<Rightarrow> Inr (py_round L 2, py_round E 2)))"
    unfolding r_def n_def e_def by (rule calculate_max_loan_and_emi_nonzero_rate)
  also have "\<dots> = Inr (py_round L 2, py_round e 2)"
    unfolding fq fp present_value_try_simps actual_emi_try_simps
    using Lpos p1 emi by (simp add: L_def)
  finally have res: "calculate_max_loan_and_emi income rate years
      = Inr (py_round L 2, py_round e 2)" .
  show ?thesis using res unfolding pv [symmetric] e_def .
qed

section \<open>The amortization engine\<close>

text \<open>For the rate 0.09 and 180 payments the base of the power is \<open>403/400\<close>. Its
  power is compared with the rounding boundaries as a numeral; the rounded present value
  is derived from these two bounds.\<close>

lemma power_ratio_lower: "(300000000::real) * 400 ^ 180 < 78164831 * 403 ^ 180"
  by simp

lemma power_ratio_upper: "(78164829::real) * 403 ^ 180 < 300000000 * 400 ^ 180"
  by simp

lemma power_int_neg_ratio:
  fixes x y :: real
  assumes "x \<noteq> 0" "y \<noteq> 0"
  shows "(x / y) powi (- int n) = y ^ n / x ^ n"
  using assms by (simp add: power_int_minus power_divide field_simps)

lemma annuity_present_value_11250:
  "py_round (annuity_present_value 11250 (9 / 100) 15) 2 = 110917585 / 100"
proof -
  define a :: real where "a = 400 ^ 180"
  define b :: real where "b = 403 ^ 180"
  have b: "0 < b" unfolding b_def by (rule zero_less_power) simp
  have lo: "300000000 * a < 78164831 * b" unfolding a_def b_def by (rule power_ratio_lower)
  have hi: "78164829 * b < 300000000 * a" unfolding a_def b_def by (rule power_ratio_upper)
  have "(403 / 400 :: real) powi (- int 180) = a / b"
    unfolding a_def b_def by (rule power_int_neg_ratio) simp_all
  moreover have "- int 180 = - (15 * 12)" by simp
  ultimately have q: "(403 / 400 :: real) powi (- (15 * 12)) = a / b" by (simp only:)
  have base: "1 + (9 / 100) / 12 = (403 / 400 :: real)" by simp
  have "annuity_present_value 11250 (9 / 100) 15
          = 11250 * (1 - a / b) / ((9 / 100) / 12)"
    unfolding annuity_present_value_def by (simp only: base q)
  also have "\<dots> = 1500000 * (1 - a / b)" by simp
  finally have p: "annuity_present_value 11250 (9 / 100) 15 = 1500000 * (1 - a / b)" .
  have "py_round (1500000 * (1 - a / b)) 2 = of_int 110917585 / 100"
  proof (rule py_round_2_unique)
    show "of_int 110917585 - 1 / 2 < 1500000 * (1 - a / b) * 100"
      using lo b by (simp add: field_simps)
    show "1500000 * (1 - a / b) * 100 < of_int 110917585 + 1 / 2"
      using hi b by (simp add: field_simps)
  qed
  then show ?thesis unfolding p by simp
qed

lemma py_round_11250: "py_round 11250 2 = 11250"
  using py_round_2_fix [of 1125000] by simp

text \<open>
  Claim C1. For a monthly income of 25000, an annual rate of 0.09 and a tenure of 15 years
  \<^const>\<open>calculate_max_loan_and_emi\<close> returns the loan amount 1109175.85 and the installment
  11250. The installment is the income times 0.45 rounded to 2 decimals, and the present
  value of an annuity of the returned installment, at the same rate and tenure, is within
  one currency unit of the returned loan amount.
\<close>

theorem amortization_scenario:
  "calculate_max_loan_and_emi 25000 (9 / 100) 15 = Inr (110917585 / 100, 11250)
   \<and> py_round (25000 * MAX_EMI_TO_INCOME_RATIO) 2 = 11250
   \<and> \<bar>annuity_present_value 11250 (9 / 100) 15 - 110917585 / 100\<bar> \<le> 1"
proof -
  have e: "25000 * MAX_EMI_TO_INCOME_RATIO = 11250"
    by (simp add: MAX_EMI_TO_INCOME_RATIO_def)
  have "calculate_max_loan_and_emi 25000 (9 / 100) 15 =
          Inr (py_round (annuity_present_value (25000 * MAX_EMI_TO_INCOME_RATIO) (9 / 100) 15) 2,
               py_round (25000 * MAX_EMI_TO_INCOME_RATIO) 2)"
    by (rule regular_quote) simp_all
  then have 1: "calculate_max_loan_and_emi 25000 (9 / 100) 15 = Inr (110917585 / 100, 11250)"
    unfolding e annuity_present_value_11250 py_round_11250 .
  have 2: "py_round (25000 * MAX_EMI_TO_INCOME_RATIO) 2 = 11250"
    unfolding e by (rule py_round_11250)
  have "\<bar>py_round (annuity_present_value 11250 (9 / 100) 15) 2
          - annuity_present_value 11250 (9 / 100) 15\<bar> \<le> 5 / 1000"
    by (rule py_round_error_2)
  then have 3: "\<bar>annuity_present_value 11250 (9 / 100) 15 - 110917585 / 100\<bar> \<le> 1"
    unfolding annuity_present_value_11250 by linarith
  show ?thesis using 1 2 3 by blast
qed

text \<open>The only exception that escapes the engine: with the annual rate \<open>-12\<close> the base
  \<open>1 + r\<close> of the power is zero and its exponent negative, and the handler of line 131
  catches \<^verbatim>\<open>OverflowError\<close> only.\<close>

lemma uncaught_zero_division:
  "calculate_max_loan_and_emi 25000 (- 12) 15 = Inl ZeroDivisionError"
proof -
  have "float_pow (1 + (- 12) / 12) (- (15 * 12)) = Inl ZeroDivisionError"
    by (simp add: float_pow_def)
  then show ?thesis
    by (simp add: calculate_max_loan_and_emi_nonzero_rate present_value_try_simps)
qed

text \<open>Two inputs whose powers leave the binary64 range: with the annual rate
  \<open>-3069/256\<close> the base is \<open>1/1024\<close> and the power of line 130 is \<open>2 ^ 1800\<close>; with the
  annual rate 12276 the base is 1024, the power of line 130 is \<open>2 ^ -1800\<close> and the power of
  line 146 is \<open>2 ^ 1800\<close>.\<close>

lemma pv_overflow_example:
  "float_pow (1 + (- (3069 / 256)) / 12) (- (15 * 12)) = Inl OverflowError"
proof -
  have "float_pow (1 / 1024) (- 180) = Inl OverflowError"
    by (rule float_pow_overflow_small) simp_all
  moreover have "1 + (- (3069 / 256)) / 12 = (1 / 1024 :: real)" by simp
  moreover have "- ((15::int) * 12) = - 180" by simp
  ultimately show ?thesis by (simp only:)
qed

lemma emi_overflow_example:
  "float_pow (1 + 12276 / 12) (- (15 * 12)) = Inr (1024 powi (- 180))
   \<and> 0 < (1024::real) powi (- 180) \<and> (1024::real) powi (- 180) \<le> 1 / 1024
   \<and> float_pow (1 + 12276 / 12) (15 * 12) = Inl OverflowError"
proof -
  have b: "1 + 12276 / 12 = (1024::real)" by simp
  have n: "(15::int) * 12 = 180" by simp
  have "float_pow 1024 (- 180) = Inr (1024 powi (- 180))
         \<and> 0 < (1024::real) powi (- 180) \<and> (1024::real) powi (- 180) \<le> 1 / 1024"
    by (rule float_pow_underflow_large) simp_all
  moreover have "float_pow 1024 180 = Inl OverflowError"
    by (rule float_pow_overflow_large) simp_all
  ultimately show ?thesis unfolding b n by blast
qed

lemma emi_overflow_example_loan:
  fixes q :: real
  assumes "0 < q" "q \<le> 1 / 1024"
  shows "0 < 1000123 / 1000 * MAX_EMI_TO_INCOME_RATIO * (1 - q) / (12276 / 12)"
    and "py_round (1000123 / 1000 * MAX_EMI_TO_INCOME_RATIO * (1 - q) / (12276 / 12)) 2
           = 44 / 100"
proof -
  have v: "1000123 / 1000 * MAX_EMI_TO_INCOME_RATIO * (1 - q) / (12276 / 12)
             = 9001107 / 20460000 * (1 - q)"
    by (simp add: MAX_EMI_TO_INCOME_RATIO_def)
  show "0 < 1000123 / 1000 * MAX_EMI_TO_INCOME_RATIO * (1 - q) / (12276 / 12)"
    unfolding v using assms by simp
  have "py_round (9001107 / 20460000 * (1 - q)) 2 = of_int 44 / 100"
    by (rule py_round_2_unique) (use assms in simp_all)
  then show "py_round (1000123 / 1000 * MAX_EMI_TO_INCOME_RATIO * (1 - q) / (12276 / 12)) 2
           = 44 / 100"
    unfolding v by simp
qed

lemma py_round_income_example: "py_round (1000123 / 1000) 2 = 100012 / 100"
proof -
  have "py_round (1000123 / 1000) 2 = of_int 100012 / 100"
    by (rule py_round_2_unique) simp_all
  then show ?thesis by simp
qed

text \<open>
  Claim C6. If the monthly income is not positive (for every annual rate above \<open>-12\<close> and
  every tenure that is not negative), or if the present-value computation of line 130
  overflows, \<^const>\<open>calculate_max_loan_and_emi\<close> returns \<open>(0, 0)\<close> and raises nothing.
\<close>

theorem nonpositive_income_or_overflow_quote:
  "(income \<le> 0 \<and> - 12 < rate \<and> 0 \<le> years
      \<longrightarrow> calculate_max_loan_and_emi income rate years = Inr (0, 0))
   \<and> (float_pow (1 + rate / 12) (- (years * 12)) = Inl OverflowError
      \<longrightarrow> calculate_max_loan_and_emi income rate years = Inr (0, 0))"
  using nonpositive_income_gives_zero [of income rate years]
    pv_overflow_gives_zero [of rate years income]
  by blast

theorem nonpositive_income_or_overflow_quote_witness:
  "((0::real) \<le> 0 \<and> - 12 < (9 / 100 :: real) \<and> (0::int) \<le> 15)
   \<and> calculate_max_loan_and_emi 0 (9 / 100) 15 = Inr (0, 0)
   \<and> calculate_max_loan_and_emi (- 100) (9 / 100) 15 = Inr (0, 0)
   \<and> float_pow (1 + (- (3069 / 256)) / 12) (- (15 * 12)) = Inl OverflowError
   \<and> calculate_max_loan_and_emi 25000 (- (3069 / 256)) 15 = Inr (0, 0)"
proof -
  have h: "(0::real) \<le> 0 \<and> - 12 < (9 / 100 :: real) \<and> (0::int) \<le> 15" by simp
  have h': "(- 100::real) \<le> 0 \<and> - 12 < (9 / 100 :: real) \<and> (0::int) \<le> 15" by simp
  show ?thesis
    using h h' pv_overflow_example
      nonpositive_income_or_overflow_quote [of 0 "9 / 100" 15]
      nonpositive_income_or_overflow_quote [of "- 100" "9 / 100" 15]
      nonpositive_income_or_overflow_quote [of 25000 "- (3069 / 256)" 15]
    by blast
qed

text \<open>Under exact arithmetic the denominator of line 147 is zero for a nonzero rate only
  when the present value of line 130 is zero, and then line 139 has already returned.\<close>

lemma zero_denominator_needs_zero_loan:
  assumes "float_pow (1 + rate / 12) (years * 12) = Inr p" "p - 1 = 0"
    and "float_pow (1 + rate / 12) (- (years * 12)) = Inr q"
  shows "income * MAX_EMI_TO_INCOME_RATIO * (1 - q) / (rate / 12) = 0"
proof -
  have p: "(1 + rate / 12) powi (years * 12) = 1"
    using assms(1,2) by (simp add: float_pow_def split: if_splits)
  have "q = (1 + rate / 12) powi (- (years * 12))"
    using assms(3) by (simp add: float_pow_def split: if_splits)
  then have "q = 1" using p by (simp add: power_int_minus)
  then show ?thesis by simp
qed

text \<open>
  Claim C2. For every income, every annual rate other than \<open>-12\<close> and every tenure the
  engine returns a pair and raises nothing. An overflow in the present-value computation
  sets the loan amount to 0, and the engine returns \<open>(0, 0)\<close>. An overflow in the
  installment recomputation sets the installment to the caller's monthly income, which the
  engine returns after the rounding to 2 decimals of line 155. A denominator
  \<open>(1 + r)^n - 1\<close> that is zero although the rate is not sets the installment to the loan
  amount divided by the number of payments (0 when there are no payments). The two
  statements about \<^const>\<open>present_value_try\<close> and the two about \<^const>\<open>actual_emi_try\<close> hold
  for every outcome of the power; the last fallback is stated on the \<^verbatim>\<open>try\<close> block alone,
  since under exact arithmetic a zero denominator needs a loan amount of 0, for which
  line 139 has already returned.
\<close>

theorem amortization_failure_policy:
  "(rate \<noteq> - 12 \<longrightarrow> (\<exists>L E. calculate_max_loan_and_emi income rate years = Inr (L, E)))
   \<and> present_value_try e r (Inl OverflowError) = Inr 0
   \<and> (float_pow (1 + rate / 12) (- (years * 12)) = Inl OverflowError
        \<longrightarrow> calculate_max_loan_and_emi income rate years = Inr (0, 0))
   \<and> actual_emi_try income M r n (Inl OverflowError) = Inr income
   \<and> (rate \<noteq> 0
        \<and> float_pow (1 + rate / 12) (- (years * 12)) = Inr q
        \<and> 0 < income * MAX_EMI_TO_INCOME_RATIO * (1 - q) / (rate / 12)
        \<and> float_pow (1 + rate / 12) (years * 12) = Inl OverflowError
        \<longrightarrow> calculate_max_loan_and_emi income rate years
            = Inr (py_round (income * MAX_EMI_TO_INCOME_RATIO * (1 - q) / (rate / 12)) 2,
                   py_round income 2))
   \<and> (r \<noteq> 0 \<and> p - 1 = 0
        \<longrightarrow> actual_emi_try income M r n (Inr p)
            = Inr (if n > 0 then M / of_int n else 0))"
  using never_raises [of rate income years]
    pv_overflow_gives_zero [of rate years income]
    emi_overflow_gives_income [of rate years q income]
  by (simp add: present_value_try_simps actual_emi_try_simps)

theorem amortization_failure_policy_witness:
  "((9 / 100 :: real) \<noteq> - 12
      \<and> (\<exists>L E. calculate_max_loan_and_emi 25000 (9 / 100) 15 = Inr (L, E)))
   \<and> (float_pow (1 + (- (3069 / 256)) / 12) (- (15 * 12)) = Inl OverflowError
      \<and> calculate_max_loan_and_emi 25000 (- (3069 / 256)) 15 = Inr (0, 0))
   \<and> ((12276::real) \<noteq> 0
      \<and> float_pow (1 + 12276 / 12) (- (15 * 12)) = Inr (1024 powi (- 180))
      \<and> 0 < 1000123 / 1000 * MAX_EMI_TO_INCOME_RATIO * (1 - 1024 powi (- 180)) / (12276 / 12)
      \<and> float_pow (1 + 12276 / 12) (15 * 12) = Inl OverflowError
      \<and> calculate_max_loan_and_emi (1000123 / 1000) 12276 15 = Inr (44 / 100, 100012 / 100))
   \<and> ((1 / 100 :: real) \<noteq> 0 \<and> (1::real) - 1 = 0
      \<and> actual_emi_try 1000 5000 (1 / 100) 60 (Inr 1) = Inr (5000 / 60))"
proof -
  have a: "(9 / 100 :: real) \<noteq> - 12" by simp
  have c: "(12276::real) \<noteq> 0" by simp
  have d: "(1 / 100 :: real) \<noteq> 0 \<and> (1::real) - 1 = 0" by simp
  note ex = emi_overflow_example
  note loan = emi_overflow_example_loan [of "1024 powi (- 180)"]
  have 1: "\<exists>L E. calculate_max_loan_and_emi 25000 (9 / 100) 15 = Inr (L, E)"
    using a amortization_failure_policy [of "9 / 100" 25000 15] by blast
  have 2: "calculate_max_loan_and_emi 25000 (- (3069 / 256)) 15 = Inr (0, 0)"
    using pv_overflow_example amortization_failure_policy [of "- (3069 / 256)" 25000 15]
    by blast
  have pos: "0 < 1000123 / 1000 * MAX_EMI_TO_INCOME_RATIO * (1 - 1024 powi (- 180))
               / (12276 / 12)"
    using ex loan(1) by blast
  have "calculate_max_loan_and_emi (1000123 / 1000) 12276 15
          = Inr (py_round (1000123 / 1000 * MAX_EMI_TO_INCOME_RATIO * (1 - 1024 powi (- 180))
                   / (12276 / 12)) 2, py_round (1000123 / 1000) 2)"
    using c ex pos
      amortization_failure_policy [of 12276 "1000123 / 1000" 15 _ _ _ _ "1024 powi (- 180)"]
    by blast
  moreover have "py_round (1000123 / 1000 * MAX_EMI_TO_INCOME_RATIO * (1 - 1024 powi (- 180))
                   / (12276 / 12)) 2 = 44 / 100"
    using ex loan(2) by blast
  ultimately have 3: "calculate_max_loan_and_emi (1000123 / 1000) 12276 15
      = Inr (44 / 100, 100012 / 100)"
    by (simp only: py_round_income_example)
  have 4: "actual_emi_try 1000 5000 (1 / 100) 60 (Inr 1) = Inr (5000 / 60)"
    using d amortization_failure_policy [where r = "1 / 100" and p = 1 and n = 60
        and income = 1000 and M = 5000]
    by simp
  show ?thesis using a c d ex pv_overflow_example 1 2 pos 3 4 by blast
qed

section \<open>The score generator\<close>

text \<open>
  Claim C4. For every feature set, the empty one included, \<^const>\<open>generate_civil_score\<close>
  returns an integer between 300 and 900 (the function is total: the division of line 86
  is only reached for a non-empty dict). The empty set is averaged as \<open>0.5\<close> and scores
  600; a non-empty set is averaged, rescaled from \<open>[0, 1]\<close> to \<open>[300, 900]\<close>, truncated to
  an integer and clamped to \<open>[300, 900]\<close>.
\<close>

theorem score_generator_in_range:
  "300 \<le> generate_civil_score fs
   \<and> generate_civil_score fs \<le> 900
   \<and> avg_feature_score [] = 1 / 2
   \<and> generate_civil_score [] = 600
   \<and> (fs \<noteq> [] \<longrightarrow>
        generate_civil_score fs
          = max 300 (min (py_int (300 + (sum_list (map snd fs) / of_nat (length fs)) * 600)) 900))"
  by (simp add: generate_civil_score_def avg_feature_score_def CIVIL_SCORE_MIN_def
        CIVIL_SCORE_MAX_def Let_def py_int_def)

theorem score_generator_in_range_witness:
  "[(''a'', 5 :: real)] \<noteq> []
   \<and> generate_civil_score [(''a'', 5)] = 900
   \<and> generate_civil_score [(''a'', - 5)] = 300
   \<and> generate_civil_score [(''a'', 3333 / 10000), (''b'', 1 / 2)] = 549"
  using score_generator_in_range [of "[(''a'', 5)]"]
  by (simp add: generate_civil_score_def avg_feature_score_def CIVIL_SCORE_MIN_def
        CIVIL_SCORE_MAX_def Let_def py_int_def)

section \<open>The rate estimator\<close>

lemma calculate_loan_interest_rate_formula:
  "calculate_loan_interest_rate s
     = max (7 / 100) (min (9 / 100 - ((of_int s - 600) / 100) * (25 / 10000)) (15 / 100))"
  by (simp add: calculate_loan_interest_rate_def CIVIL_SCORE_MIN_def CIVIL_SCORE_MAX_def
        ANNUAL_INTEREST_RATE_DEFAULT_def Let_def)

lemma calculate_loan_interest_rate_bounds:
  "7 / 100 \<le> calculate_loan_interest_rate s \<and> calculate_loan_interest_rate s \<le> 15 / 100"
  unfolding calculate_loan_interest_rate_formula by linarith

lemma calculate_loan_interest_rate_antimono:
  assumes "s \<le> s'"
  shows "calculate_loan_interest_rate s' \<le> calculate_loan_interest_rate s"
proof -
  have "real_of_int s \<le> real_of_int s'" using assms by simp
  then have "9 / 100 - ((real_of_int s' - 600) / 100) * (25 / 10000)
             \<le> 9 / 100 - ((real_of_int s - 600) / 100) * (25 / 10000)"
    by simp
  then have "min (9 / 100 - ((real_of_int s' - 600) / 100) * (25 / 10000)) (15 / 100)
             \<le> min (9 / 100 - ((real_of_int s - 600) / 100) * (25 / 10000)) (15 / 100)"
    by (rule min.mono) simp
  then show ?thesis
    unfolding calculate_loan_interest_rate_formula by (rule max.mono [OF order_refl])
qed

text \<open>
  Claim C3. For every score, \<^const>\<open>calculate_loan_interest_rate\<close> returns
  \<open>0.09 - ((score - 600) / 100) * 0.0025\<close> clamped to \<open>[0.07, 0.15]\<close>: the result lies in
  \<open>[0.07, 0.15]\<close>, a higher score never gets a higher rate, and the rate at 900 is at
  most the rate at 300.
\<close>

theorem rate_estimator_clamped_monotone:
  "calculate_loan_interest_rate s
     = max (7 / 100) (min (9 / 100 - ((of_int s - 600) / 100) * (25 / 10000)) (15 / 100))
   \<and> 7 / 100 \<le> calculate_loan_interest_rate s
   \<and> calculate_loan_interest_rate s \<le> 15 / 100
   \<and> (s \<le> s' \<longrightarrow> calculate_loan_interest_rate s' \<le> calculate_loan_interest_rate s)
   \<and> calculate_loan_interest_rate 900 \<le> calculate_loan_interest_rate 300"
  using calculate_loan_interest_rate_formula [of s] calculate_loan_interest_rate_bounds [of s]
    calculate_loan_interest_rate_antimono [of s s']
    calculate_loan_interest_rate_antimono [of 300 900]
  by simp

theorem rate_estimator_clamped_monotone_witness:
  "(300 :: int) \<le> 900
   \<and> calculate_loan_interest_rate 900 \<le> calculate_loan_interest_rate 300
   \<and> calculate_loan_interest_rate 300 = 975 / 10000
   \<and> calculate_loan_interest_rate 900 = 825 / 10000"
  using rate_estimator_clamped_monotone [of 300 900]
  by (simp add: calculate_loan_interest_rate_def CIVIL_SCORE_MIN_def CIVIL_SCORE_MAX_def
        ANNUAL_INTEREST_RATE_DEFAULT_def Let_def)

section \<open>The salaried scenario\<close>

lemma salaried_features:
  "simulate_alt_data_features ''Salaried (Formal Employment)''
     = [(''income_stability_proxy'', 9 / 10),
        (''digital_transaction_volume'', 8 / 10),
        (''social_reputation_proxy'', 5 / 10),
        (''asset_ownership_proxy'', 6 / 10),
        (''skill_versatility_proxy'', 7 / 10)]"
  by (simp add: simulate_alt_data_features_def default_features_def dict_update_def)

text \<open>
  Claim C5, as the code has it. For the occupation \<open>Salaried (Formal Employment)\<close> the
  five feature values are 0.9, 0.8, 0.5, 0.6 and 0.7: their average is 0.70, the score is
  \<open>300 + 0.70 * 600 = 720\<close> and the annual rate is 0.087, that is 8.70 percent.
\<close>

theorem salaried_pipeline_values:
  "avg_feature_score (simulate_alt_data_features ''Salaried (Formal Employment)'') = 7 / 10
   \<and> generate_civil_score (simulate_alt_data_features ''Salaried (Formal Employment)'') = 720
   \<and> calculate_loan_interest_rate
        (generate_civil_score (simulate_alt_data_features ''Salaried (Formal Employment)''))
      = 87 / 1000"
  by (simp add: salaried_features generate_civil_score_def avg_feature_score_def
        CIVIL_SCORE_MIN_def CIVIL_SCORE_MAX_def Let_def py_int_def
        calculate_loan_interest_rate_def ANNUAL_INTEREST_RATE_DEFAULT_def)

text \<open>The values 0.74 and 744 of the scenario as the specification words it are not
  the ones the code computes.\<close>

theorem salaried_score_is_not_744:
  "avg_feature_score (simulate_alt_data_features ''Salaried (Formal Employment)'') \<noteq> 74 / 100
   \<and> generate_civil_score (simulate_alt_data_features ''Salaried (Formal Employment)'') \<noteq> 744"
  by (simp add: salaried_features generate_civil_score_def avg_feature_score_def
        CIVIL_SCORE_MIN_def CIVIL_SCORE_MAX_def Let_def py_int_def)

section \<open>The lenders' rates\<close>

text \<open>
  Claim C9. For every score and every base rate the first lender's rate (line 166) lies in
  \<open>[0.075, 0.16]\<close> and the second lender's rate (line 195) in \<open>[0.07, 0.14]\<close>. The first
  lender's rate can exceed 0.15, the upper bound of the rate estimator: it is 0.158 for the
  base rate 0.15 and the score 300.
\<close>

theorem lender_rates_clamped:
  "75 / 1000 \<le> bank1_interest_rate b s \<and> bank1_interest_rate b s \<le> 16 / 100
   \<and> 7 / 100 \<le> bank2_interest_rate b s \<and> bank2_interest_rate b s \<le> 14 / 100
   \<and> 15 / 100 < bank1_interest_rate (15 / 100) 300"
proof -
  have "15 / 100 < bank1_interest_rate (15 / 100) 300"
    by (simp add: bank1_interest_rate_def Let_def)
  moreover have "75 / 1000 \<le> bank1_interest_rate b s \<and> bank1_interest_rate b s \<le> 16 / 100"
    unfolding bank1_interest_rate_def Let_def by linarith
  moreover have "7 / 100 \<le> bank2_interest_rate b s \<and> bank2_interest_rate b s \<le> 14 / 100"
    unfolding bank2_interest_rate_def Let_def by linarith
  ultimately show ?thesis by simp
qed

section \<open>The offer generator\<close>

lemma bank1_interest_rate_bounds:
  "75 / 1000 \<le> bank1_interest_rate b s \<and> bank1_interest_rate b s \<le> 16 / 100"
  unfolding bank1_interest_rate_def Let_def by linarith

lemma bank2_interest_rate_bounds:
  "7 / 100 \<le> bank2_interest_rate b s \<and> bank2_interest_rate b s \<le> 14 / 100"
  unfolding bank2_interest_rate_def Let_def by linarith

lemma emi_recalc_total:
  assumes "0 < rate" "rate \<le> 12" "years * 12 \<le> 1023"
  shows "\<exists>E. emi_recalc amount rate years = Inr E"
proof (cases "0 < years * 12")
  case True
  have "float_pow (1 + rate / 12) (years * 12) = Inr ((1 + rate / 12) powi (years * 12))"
    using assms True by (intro float_pow_range) simp_all
  then show ?thesis by (simp add: emi_recalc_def Let_def)
next
  case False
  then show ?thesis by (simp add: emi_recalc_def Let_def)
qed

lemma tenure_domain:
  assumes "years \<in> set LOAN_TENURES_YEARS"
  shows "0 \<le> years" "years * 12 \<le> 1023"
  using assms by (auto simp: LOAN_TENURES_YEARS_def)

lemma get_mock_bank_loan_options_regular:
  assumes "0 \<le> years" "years * 12 \<le> 1023"
  shows "\<exists>E1 E2. get_mock_bank_loan_options u1 u2 M emi score years base =
    Inr (let options2 =
               (if py_round (M * u1) (- 3) > 10000
                then [bank1_offer (py_round (M * u1) (- 3)) (bank1_interest_rate base score)
                        years E1]
                else []) @
               (if py_round (M * u2) (- 3) > 10000
                then [bank2_offer (py_round (M * u2) (- 3)) (bank2_interest_rate base score)
                        years E2]
                else [])
         in if options2 = [] \<and> M > 0
            then options2 @ [generic_offer M emi years base] else options2)"
proof -
  let ?r1 = "bank1_interest_rate base score"
  let ?r2 = "bank2_interest_rate base score"
  have r1: "0 < ?r1" "?r1 \<le> 12" "- 12 < ?r1"
    using bank1_interest_rate_bounds [of base score] by linarith+
  have r2: "0 < ?r2" "?r2 \<le> 12"
    using bank2_interest_rate_bounds [of base score] by linarith+
  have c: "calculate_max_loan_and_emi 0 ?r1 years = Inr (0, 0)"
    using r1 assms by (intro nonpositive_income_gives_zero) simp_all
  obtain E1 where E1: "emi_recalc (py_round (M * u1) (- 3)) ?r1 years = Inr E1"
    using emi_recalc_total [OF r1(1) r1(2) assms(2)] by blast
  obtain E2 where E2: "emi_recalc (py_round (M * u2) (- 3)) ?r2 years = Inr E2"
    using emi_recalc_total [OF r2(1) r2(2) assms(2)] by blast
  have main: "get_mock_bank_loan_options u1 u2 M emi score years base =
    Inr (let options2 =
               (if py_round (M * u1) (- 3) > 10000
                then [bank1_offer (py_round (M * u1) (- 3)) (bank1_interest_rate base score)
                        years E1]
                else []) @
               (if py_round (M * u2) (- 3) > 10000
                then [bank2_offer (py_round (M * u2) (- 3)) (bank2_interest_rate base score)
                        years E2]
                else [])
         in if options2 = [] \<and> M > 0
            then options2 @ [generic_offer M emi years base] else options2)"
    unfolding get_mock_bank_loan_options_def Let_def c E1 E2 by simp
  show ?thesis by (rule exI [of _ E1], rule exI [of _ E2], rule main)
qed

lemma py_round_2_between:
  assumes "of_int lo / 100 \<le> x" "x \<le> of_int hi / 100"
  shows "of_int lo / 100 \<le> py_round x 2 \<and> py_round x 2 \<le> of_int hi / 100"
  using py_round_mono [OF assms(1), of 2] py_round_mono [OF assms(2), of 2]
  by (simp add: py_round_2_fix)

lemma py_round_m3_between:
  assumes "of_int lo * 1000 \<le> x" "x \<le> of_int hi * 1000"
  shows "of_int lo * 1000 \<le> py_round x (- 3) \<and> py_round x (- 3) \<le> of_int hi * 1000"
  using py_round_mono [OF assms(1), of "- 3"] py_round_mono [OF assms(2), of "- 3"]
  by (simp add: py_round_m3_fix)

lemma py_round_m3_zero_at_zero: "py_round 0 (- 3) = 0"
  using py_round_m3_fix [of 0] by simp

lemma py_round_m3_half_thousand: "py_round 500 (- 3) = 0"
  by (simp add: py_round_def round_half_even_def)

lemma py_round_m3_below_half_thousand:
  assumes "0 \<le> x" "x \<le> 500"
  shows "py_round x (- 3) = 0"
proof -
  have "py_round 0 (- 3) \<le> py_round x (- 3)" using assms(1) by (rule py_round_mono)
  moreover have "py_round x (- 3) \<le> py_round 500 (- 3)" using assms(2) by (rule py_round_mono)
  ultimately show ?thesis
    by (simp add: py_round_m3_zero_at_zero py_round_m3_half_thousand)
qed

lemma bank1_offer_rate_pa:
  "75 / 10 \<le> interest_rate_pa (bank1_offer a (bank1_interest_rate base score) years E)
   \<and> interest_rate_pa (bank1_offer a (bank1_interest_rate base score) years E) \<le> 16"
proof -
  have "of_int 750 / 100 \<le> bank1_interest_rate base score * 100"
       "bank1_interest_rate base score * 100 \<le> of_int 1600 / 100"
    using bank1_interest_rate_bounds [of base score] by simp_all
  then show ?thesis
    using py_round_2_between [of 750 "bank1_interest_rate base score * 100" 1600]
    by (simp add: bank1_offer_def)
qed

lemma bank2_offer_rate_pa:
  "7 \<le> interest_rate_pa (bank2_offer a (bank2_interest_rate base score) years E)
   \<and> interest_rate_pa (bank2_offer a (bank2_interest_rate base score) years E) \<le> 14"
proof -
  have "of_int 700 / 100 \<le> bank2_interest_rate base score * 100"
       "bank2_interest_rate base score * 100 \<le> of_int 1400 / 100"
    using bank2_interest_rate_bounds [of base score] by simp_all
  then show ?thesis
    using py_round_2_between [of 700 "bank2_interest_rate base score * 100" 1400]
    by (simp add: bank2_offer_def)
qed

lemma no_loan_no_offers:
  assumes "years \<in> set LOAN_TENURES_YEARS"
  shows "get_mock_bank_loan_options u1 u2 0 emi score years base = Inr []"
proof -
  obtain E1 E2 where "get_mock_bank_loan_options u1 u2 0 emi score years base =
    Inr (let options2 =
               (if py_round (0 * u1) (- 3) > 10000
                then [bank1_offer (py_round (0 * u1) (- 3)) (bank1_interest_rate base score)
                        years E1]
                else []) @
               (if py_round (0 * u2) (- 3) > 10000
                then [bank2_offer (py_round (0 * u2) (- 3)) (bank2_interest_rate base score)
                        years E2]
                else [])
         in if options2 = [] \<and> (0::real) > 0
            then options2 @ [generic_offer 0 emi years base] else options2)"
    using get_mock_bank_loan_options_regular [OF tenure_domain [OF assms]] by blast
  then show ?thesis by (simp add: py_round_m3_zero_at_zero)
qed

lemma million_loan_offers:
  assumes "years \<in> set LOAN_TENURES_YEARS"
    and "9 / 10 \<le> u1" "u1 \<le> 98 / 100" "95 / 100 \<le> u2" "u2 \<le> 1"
  shows "\<exists>E1 E2. get_mock_bank_loan_options u1 u2 1000000 emi score years base =
           Inr [bank1_offer (py_round (1000000 * u1) (- 3)) (bank1_interest_rate base score)
                  years E1,
                bank2_offer (py_round (1000000 * u2) (- 3)) (bank2_interest_rate base score)
                  years E2]
         \<and> 900000 \<le> py_round (1000000 * u1) (- 3)
         \<and> 950000 \<le> py_round (1000000 * u2) (- 3)"
proof -
  have "of_int 900 * 1000 \<le> 1000000 * u1" "1000000 * u1 \<le> of_int 980 * 1000"
    using assms by simp_all
  then have a1: "900000 \<le> py_round (1000000 * u1) (- 3)"
    using py_round_m3_between [of 900 "1000000 * u1" 980] by simp
  have "of_int 950 * 1000 \<le> 1000000 * u2" "1000000 * u2 \<le> of_int 1000 * 1000"
    using assms by simp_all
  then have a2: "950000 \<le> py_round (1000000 * u2) (- 3)"
    using py_round_m3_between [of 950 "1000000 * u2" 1000] by simp
  have g1: "10000 < py_round (1000000 * u1) (- 3)" using a1 by linarith
  have g2: "10000 < py_round (1000000 * u2) (- 3)" using a2 by linarith
  obtain E1 E2 where "get_mock_bank_loan_options u1 u2 1000000 emi score years base =
    Inr (let options2 =
               (if py_round (1000000 * u1) (- 3) > 10000
                then [bank1_offer (py_round (1000000 * u1) (- 3))
                        (bank1_interest_rate base score) years E1]
                else []) @
               (if py_round (1000000 * u2) (- 3) > 10000
                then [bank2_offer (py_round (1000000 * u2) (- 3))
                        (bank2_interest_rate base score) years E2]
                else [])
         in if options2 = [] \<and> (1000000::real) > 0
            then options2 @ [generic_offer 1000000 emi years base] else options2)"
    using get_mock_bank_loan_options_regular [OF tenure_domain [OF assms(1)]] by blast
  then have "get_mock_bank_loan_options u1 u2 1000000 emi score years base =
           Inr [bank1_offer (py_round (1000000 * u1) (- 3)) (bank1_interest_rate base score)
                  years E1,
                bank2_offer (py_round (1000000 * u2) (- 3)) (bank2_interest_rate base score)
                  years E2]"
    using g1 g2 by simp
  then show ?thesis using a1 a2 by blast
qed

lemma fallback_only:
  assumes "years \<in> set LOAN_TENURES_YEARS"
    and "py_round (M * u1) (- 3) \<le> 10000" "py_round (M * u2) (- 3) \<le> 10000" "0 < M"
  shows "get_mock_bank_loan_options u1 u2 M emi score years base
           = Inr [generic_offer M emi years base]"
proof -
  obtain E1 E2 where "get_mock_bank_loan_options u1 u2 M emi score years base =
    Inr (let options2 =
               (if py_round (M * u1) (- 3) > 10000
                then [bank1_offer (py_round (M * u1) (- 3)) (bank1_interest_rate base score)
                        years E1]
                else []) @
               (if py_round (M * u2) (- 3) > 10000
                then [bank2_offer (py_round (M * u2) (- 3)) (bank2_interest_rate base score)
                        years E2]
                else [])
         in if options2 = [] \<and> M > 0
            then options2 @ [generic_offer M emi years base] else options2)"
    using get_mock_bank_loan_options_regular [OF tenure_domain [OF assms(1)]] by blast
  then show ?thesis using assms(2-4) by simp
qed

lemma generic_offer_rate_close:
  "\<bar>interest_rate_pa (generic_offer M emi years base) - (base * 100 + 1)\<bar> \<le> 5 / 1000"
  using py_round_error_2 [of "base * 100"] by (simp add: generic_offer_def)

text \<open>
  Claim C7. For a tenure of the allowed set and a maximum loan amount of 0,
  \<^const>\<open>get_mock_bank_loan_options\<close> returns the empty list, whatever the random draws. For a
  maximum loan amount of 1000000 and every outcome of the two draws (\<open>u1\<close> in
  \<open>[0.90, 0.98]\<close>, \<open>u2\<close> in \<open>[0.95, 1.0]\<close>) it returns between 1 and 3 offers (in fact the
  two named lenders' offers), each with an offered amount above 10000 and a rate, in
  percent, inside its lender's clamp range: \<open>[7.5, 16]\<close> for the first lender and
  \<open>[7, 14]\<close> for the second.
\<close>

theorem offers_for_zero_and_million:
  "(years \<in> set LOAN_TENURES_YEARS
      \<longrightarrow> get_mock_bank_loan_options u1 u2 0 emi score years base = Inr [])
   \<and> (years \<in> set LOAN_TENURES_YEARS
        \<and> 9 / 10 \<le> u1 \<and> u1 \<le> 98 / 100 \<and> 95 / 100 \<le> u2 \<and> u2 \<le> 1
      \<longrightarrow> (\<exists>os. get_mock_bank_loan_options u1 u2 1000000 emi score years base = Inr os
             \<and> 1 \<le> length os \<and> length os \<le> 3
             \<and> (\<forall>off \<in> set os.
                   10000 < offered_loan_amount off
                   \<and> (bank_name off = ''Inclusive Housing Finance Ltd.''
                          \<and> 75 / 10 \<le> interest_rate_pa off \<and> interest_rate_pa off \<le> 16
                        \<or> bank_name off = ''Progressive National Bank''
                          \<and> 7 \<le> interest_rate_pa off \<and> interest_rate_pa off \<le> 14))))"
proof (intro conjI impI)
  assume "years \<in> set LOAN_TENURES_YEARS"
  then show "get_mock_bank_loan_options u1 u2 0 emi score years base = Inr []"
    by (rule no_loan_no_offers)
next
  assume a: "years \<in> set LOAN_TENURES_YEARS
        \<and> 9 / 10 \<le> u1 \<and> u1 \<le> 98 / 100 \<and> 95 / 100 \<le> u2 \<and> u2 \<le> 1"
  let ?a1 = "py_round (1000000 * u1) (- 3)"
  let ?a2 = "py_round (1000000 * u2) (- 3)"
  let ?r1 = "bank1_interest_rate base score"
  let ?r2 = "bank2_interest_rate base score"
  obtain E1 E2 where
    os: "get_mock_bank_loan_options u1 u2 1000000 emi score years base =
           Inr [bank1_offer ?a1 ?r1 years E1, bank2_offer ?a2 ?r2 years E2]"
    and a1: "900000 \<le> ?a1" and a2: "950000 \<le> ?a2"
    using million_loan_offers [of years u1 u2 emi score base] a by blast
  have 1: "10000 < offered_loan_amount (bank1_offer ?a1 ?r1 years E1)"
    using a1 by (simp add: bank1_offer_def)
  have 2: "10000 < offered_loan_amount (bank2_offer ?a2 ?r2 years E2)"
    using a2 by (simp add: bank2_offer_def)
  have 3: "bank_name (bank1_offer ?a1 ?r1 years E1) = ''Inclusive Housing Finance Ltd.''"
    by (simp add: bank1_offer_def)
  have 4: "bank_name (bank2_offer ?a2 ?r2 years E2) = ''Progressive National Bank''"
    by (simp add: bank2_offer_def)
  show "\<exists>os. get_mock_bank_loan_options u1 u2 1000000 emi score years base = Inr os
             \<and> 1 \<le> length os \<and> length os \<le> 3
             \<and> (\<forall>off \<in> set os.
                   10000 < offered_loan_amount off
                   \<and> (bank_name off = ''Inclusive Housing Finance Ltd.''
                          \<and> 75 / 10 \<le> interest_rate_pa off \<and> interest_rate_pa off \<le> 16
                        \<or> bank_name off = ''Progressive National Bank''
                          \<and> 7 \<le> interest_rate_pa off \<and> interest_rate_pa off \<le> 14))"
    apply (rule exI [of _ "[bank1_offer ?a1 ?r1 years E1, bank2_offer ?a2 ?r2 years E2]"])
    using os 1 2 3 4 bank1_offer_rate_pa [of ?a1 base score years E1]
      bank2_offer_rate_pa [of ?a2 base score years E2]
    by simp
qed

theorem offers_for_zero_and_million_witness:
  "(15 \<in> set LOAN_TENURES_YEARS
      \<and> (9 / 10 :: real) \<le> 95 / 100 \<and> (95 / 100 :: real) \<le> 98 / 100
      \<and> (95 / 100 :: real) \<le> 97 / 100 \<and> (97 / 100 :: real) \<le> 1)
   \<and> get_mock_bank_loan_options (95 / 100) (97 / 100) 0 0 720 15 (87 / 1000) = Inr []
   \<and> (\<exists>os. get_mock_bank_loan_options (95 / 100) (97 / 100) 1000000 11250 720 15 (87 / 1000)
               = Inr os
          \<and> 1 \<le> length os \<and> length os \<le> 3
          \<and> (\<forall>off \<in> set os.
                10000 < offered_loan_amount off
                \<and> (bank_name off = ''Inclusive Housing Finance Ltd.''
                       \<and> 75 / 10 \<le> interest_rate_pa off \<and> interest_rate_pa off \<le> 16
                     \<or> bank_name off = ''Progressive National Bank''
                       \<and> 7 \<le> interest_rate_pa off \<and> interest_rate_pa off \<le> 14)))"
proof -
  have h: "15 \<in> set LOAN_TENURES_YEARS
      \<and> (9 / 10 :: real) \<le> 95 / 100 \<and> (95 / 100 :: real) \<le> 98 / 100
      \<and> (95 / 100 :: real) \<le> 97 / 100 \<and> (97 / 100 :: real) \<le> 1"
    by (simp add: LOAN_TENURES_YEARS_def)
  show ?thesis
    using h offers_for_zero_and_million [of 15 "95 / 100" "97 / 100" 0 720 "87 / 1000"]
      offers_for_zero_and_million [of 15 "95 / 100" "97 / 100" 11250 720 "87 / 1000"]
    by blast
qed

text \<open>
  Claim C8. Whenever neither lender's offered amount exceeds 10000 and the maximum loan
  amount is positive, \<^const>\<open>get_mock_bank_loan_options\<close> returns exactly one offer, of the
  generic lender: its amount is 90 percent of the maximum loan amount rounded to the
  nearest thousand, its rate is the base rate in percent (rounded to 2 decimals, like every
  rate of an offer) plus 1, and its installment is the original installment times 1.05,
  with no annuity formula and no rounding.
\<close>

theorem generic_fallback_offer:
  "years \<in> set LOAN_TENURES_YEARS
     \<and> py_round (M * u1) (- 3) \<le> 10000 \<and> py_round (M * u2) (- 3) \<le> 10000 \<and> 0 < M
   \<longrightarrow> (\<exists>off. get_mock_bank_loan_options u1 u2 M emi score years base = Inr [off]
          \<and> bank_name off = ''Generic Lender Co.''
          \<and> offered_loan_amount off = py_round (M * (9 / 10)) (- 3)
          \<and> interest_rate_pa off = py_round (base * 100) 2 + 1
          \<and> \<bar>interest_rate_pa off - (base * 100 + 1)\<bar> \<le> 5 / 1000
          \<and> estimated_emi off = emi * (105 / 100)
          \<and> tenure_years off = years)"
proof
  assume a: "years \<in> set LOAN_TENURES_YEARS
     \<and> py_round (M * u1) (- 3) \<le> 10000 \<and> py_round (M * u2) (- 3) \<le> 10000 \<and> 0 < M"
  have "get_mock_bank_loan_options u1 u2 M emi score years base
          = Inr [generic_offer M emi years base]"
    using a by (intro fallback_only) simp_all
  then show "\<exists>off. get_mock_bank_loan_options u1 u2 M emi score years base = Inr [off]
          \<and> bank_name off = ''Generic Lender Co.''
          \<and> offered_loan_amount off = py_round (M * (9 / 10)) (- 3)
          \<and> interest_rate_pa off = py_round (base * 100) 2 + 1
          \<and> \<bar>interest_rate_pa off - (base * 100 + 1)\<bar> \<le> 5 / 1000
          \<and> estimated_emi off = emi * (105 / 100)
          \<and> tenure_years off = years"
    apply (intro exI [of _ "generic_offer M emi years base"])
    using generic_offer_rate_close [of M emi years base]
    by (simp add: generic_offer_def)
qed

lemma py_round_pct_example: "py_round (87 / 1000 * 100) 2 + 1 = 97 / 10"
  using py_round_2_fix [of 870] by simp

theorem generic_fallback_offer_witness:
  "(15 \<in> set LOAN_TENURES_YEARS
      \<and> py_round (500 * (95 / 100)) (- 3) \<le> 10000
      \<and> py_round (500 * (97 / 100)) (- 3) \<le> 10000 \<and> (0::real) < 500)
   \<and> (\<exists>off. get_mock_bank_loan_options (95 / 100) (97 / 100) 500 10 720 15 (87 / 1000)
                = Inr [off]
          \<and> bank_name off = ''Generic Lender Co.''
          \<and> offered_loan_amount off = 0
          \<and> interest_rate_pa off = 97 / 10
          \<and> estimated_emi off = 105 / 10
          \<and> tenure_years off = 15)"
proof -
  have z1: "py_round (500 * (95 / 100)) (- 3) = 0"
    by (rule py_round_m3_below_half_thousand) simp_all
  have z2: "py_round (500 * (97 / 100)) (- 3) = 0"
    by (rule py_round_m3_below_half_thousand) simp_all
  have z3: "py_round (500 * (9 / 10)) (- 3) = 0"
    by (rule py_round_m3_below_half_thousand) simp_all
  have h: "15 \<in> set LOAN_TENURES_YEARS
      \<and> py_round (500 * (95 / 100)) (- 3) \<le> 10000
      \<and> py_round (500 * (97 / 100)) (- 3) \<le> 10000 \<and> (0::real) < 500"
    unfolding z1 z2 by (simp add: LOAN_TENURES_YEARS_def)
  have "\<exists>off. get_mock_bank_loan_options (95 / 100) (97 / 100) 500 10 720 15 (87 / 1000)
                = Inr [off]
          \<and> bank_name off = ''Generic Lender Co.''
          \<and> offered_loan_amount off = py_round (500 * (9 / 10)) (- 3)
          \<and> interest_rate_pa off = py_round (87 / 1000 * 100) 2 + 1
          \<and> \<bar>interest_rate_pa off - (87 / 1000 * 100 + 1)\<bar> \<le> 5 / 1000
          \<and> estimated_emi off = 10 * (105 / 100)
          \<and> tenure_years off = 15"
    using h generic_fallback_offer [of 15 500 "95 / 100" "97 / 100" 10 720 "87 / 1000"]
    by blast
  then have "\<exists>off. get_mock_bank_loan_options (95 / 100) (97 / 100) 500 10 720 15 (87 / 1000)
                = Inr [off]
          \<and> bank_name off = ''Generic Lender Co.''
          \<and> offered_loan_amount off = 0
          \<and> interest_rate_pa off = 97 / 10
          \<and> estimated_emi off = 105 / 10
          \<and> tenure_years off = 15"
    unfolding z3 py_round_pct_example by auto
  then show ?thesis using h by blast
qed

text \<open>
  Claim C10. The threshold of 10000 is not applied to the generic offer: for the
  maximum loan amount 500 and every outcome of the two draws the generator returns one
  offer, the generic one, and its offered amount is 0 after rounding to the nearest
  thousand.
\<close>

theorem fallback_offer_ignores_threshold:
  "years \<in> set LOAN_TENURES_YEARS
     \<and> 9 / 10 \<le> u1 \<and> u1 \<le> 98 / 100 \<and> 95 / 100 \<le> u2 \<and> u2 \<le> 1
   \<longrightarrow> (\<exists>off. get_mock_bank_loan_options u1 u2 500 emi score years base = Inr [off]
          \<and> bank_name off = ''Generic Lender Co.''
          \<and> offered_loan_amount off \<le> 10000
          \<and> offered_loan_amount off = 0)"
proof
  assume a: "years \<in> set LOAN_TENURES_YEARS
     \<and> 9 / 10 \<le> u1 \<and> u1 \<le> 98 / 100 \<and> 95 / 100 \<le> u2 \<and> u2 \<le> 1"
  have z1: "py_round (500 * u1) (- 3) = 0"
    using a by (intro py_round_m3_below_half_thousand) simp_all
  have z2: "py_round (500 * u2) (- 3) = 0"
    using a by (intro py_round_m3_below_half_thousand) simp_all
  have z3: "py_round (500 * (9 / 10)) (- 3) = 0"
    by (rule py_round_m3_below_half_thousand) simp_all
  have "get_mock_bank_loan_options u1 u2 500 emi score years base
          = Inr [generic_offer 500 emi years base]"
    using a z1 z2 by (intro fallback_only) simp_all
  moreover have "offered_loan_amount (generic_offer 500 emi years base) = 0"
    using z3 by (simp add: generic_offer_def)
  moreover have "bank_name (generic_offer 500 emi years base) = ''Generic Lender Co.''"
    by (simp add: generic_offer_def)
  ultimately show "\<exists>off. get_mock_bank_loan_options u1 u2 500 emi score years base = Inr [off]
          \<and> bank_name off = ''Generic Lender Co.''
          \<and> offered_loan_amount off \<le> 10000
          \<and> offered_loan_amount off = 0"
    by (intro exI [of _ "generic_offer 500 emi years base"]) simp
qed

theorem fallback_offer_ignores_threshold_witness:
  "(15 \<in> set LOAN_TENURES_YEARS
      \<and> (9 / 10 :: real) \<le> 95 / 100 \<and> (95 / 100 :: real) \<le> 98 / 100
      \<and> (95 / 100 :: real) \<le> 1 \<and> (1 :: real) \<le> 1)
   \<and> (\<exists>off. get_mock_bank_loan_options (95 / 100) 1 500 11250 720 15 (87 / 1000) = Inr [off]
          \<and> bank_name off = ''Generic Lender Co.''
          \<and> offered_loan_amount off \<le> 10000
          \<and> offered_loan_amount off = 0)"
proof -
  have h: "15 \<in> set LOAN_TENURES_YEARS
      \<and> (9 / 10 :: real) \<le> 95 / 100 \<and> (95 / 100 :: real) \<le> 98 / 100
      \<and> (95 / 100 :: real) \<le> 1 \<and> (1 :: real) \<le> 1"
    by (simp add: LOAN_TENURES_YEARS_def)
  show ?thesis
    using h fallback_offer_ignores_threshold [of 15 "95 / 100" 1 11250 720 "87 / 1000"]
    by blast
qed

end
